theory Spec2Isabelle
  imports Complex_Main "HOL-Library.Char_ord" "HOL-Library.List_Lexorder"
begin

section \<open>Python values used by \<open>api/index.py\<close>\<close>

subsection \<open>Strings\<close>

text \<open>
  A Python \<open>str\<close> is modelled as a HOL \<open>string\<close>. The model covers ASCII text: the
  whitespace characters are the ten ASCII code points for which \<open>str.isspace\<close> holds
  (9 to 13 and 28 to 32), and the only cased characters are the letters \<open>A-Z\<close> and
  \<open>a-z\<close>. Characters above 127 are left unchanged by every function below.
\<close>

definition isspace :: "char \<Rightarrow> bool" where
  "isspace c = (let n = (of_char c :: nat) in (9 \<le> n \<and> n \<le> 13) \<or> (28 \<le> n \<and> n \<le> 32))"

definition isupper :: "char \<Rightarrow> bool" where
  "isupper c = (let n = (of_char c :: nat) in 65 \<le> n \<and> n \<le> 90)"



definition lower_char :: "char \<Rightarrow> char" where
  "lower_char c = (if isupper c then char_of ((of_char c :: nat) + 32) else c)"


text \<open>\<open>s.strip()\<close>: leading and trailing whitespace removed.\<close>

definition strip :: "string \<Rightarrow> string" where
  "strip s = rev (dropWhile isspace (rev (dropWhile isspace s)))"

text \<open>\<open>s.lower()\<close>.\<close>

definition lower :: "string \<Rightarrow> string" where
  "lower s = map lower_char s"



subsection \<open>Dictionaries\<close>

text \<open>
  A Python \<open>dict\<close> is an association list with distinct keys in insertion order.
  \<open>d[k] = v\<close> replaces the value of a key that is present, in its place, and appends a
  new key at the end.
\<close>

type_synonym ('k, 'v) pydict = "('k \<times> 'v) list"

fun dict_setitem :: "('k, 'v) pydict \<Rightarrow> 'k \<Rightarrow> 'v \<Rightarrow> ('k, 'v) pydict" where
  "dict_setitem [] k v = [(k, v)]"
| "dict_setitem ((k', v') # d) k v =
     (if k' = k then (k, v) # d else (k', v') # dict_setitem d k v)"

text \<open>\<open>d[k]\<close>, where \<open>None\<close> stands for the \<open>KeyError\<close> of a missing key.\<close>

fun dict_getitem :: "('k, 'v) pydict \<Rightarrow> 'k \<Rightarrow> 'v option" where
  "dict_getitem [] k = None"
| "dict_getitem ((k', v') # d) k = (if k' = k then Some v' else dict_getitem d k)"

text \<open>\<open>d.get(k, default)\<close>.\<close>

fun dict_get :: "('k, 'v) pydict \<Rightarrow> 'k \<Rightarrow> 'v \<Rightarrow> 'v" where
  "dict_get [] k dflt = dflt"
| "dict_get ((k', v') # d) k dflt = (if k' = k then v' else dict_get d k dflt)"

definition dict_keys :: "('k, 'v) pydict \<Rightarrow> 'k list" where
  "dict_keys d = map fst d"

text \<open>\<open>d.update(other)\<close> and \<open>dict(pairs)\<close>: the items are stored one after the other.\<close>

definition dict_update :: "('k, 'v) pydict \<Rightarrow> ('k \<times> 'v) list \<Rightarrow> ('k, 'v) pydict" where
  "dict_update d items = fold (\<lambda>(k, v) acc. dict_setitem acc k v) items d"

definition dict_of :: "('k \<times> 'v) list \<Rightarrow> ('k, 'v) pydict" where
  "dict_of items = dict_update [] items"

section \<open>The city table\<close>

text \<open>
  A row of \<open>city_traffic_scores.csv\<close> as the comprehension of lines 21 to 24 reads it:
  \<open>CITY\<close> is \<open>str(row["CITY"])\<close> and \<open>TRAFFIC_SCORE\<close> is \<open>int(row["TRAFFIC_SCORE"])\<close>.
\<close>

record city_row =
  CITY :: string
  TRAFFIC_SCORE :: int

definition city_map :: "city_row list \<Rightarrow> (string, int) pydict" where
  "city_map city_df =
     fold (\<lambda>row acc. dict_setitem acc (lower (strip (CITY row))) (TRAFFIC_SCORE row)) city_df []"

definition DEFAULT_TRAFFIC_SCORE :: int where
  "DEFAULT_TRAFFIC_SCORE = 50"

text \<open>Lines 153 to 156 of \<open>predict\<close>: the traffic score of the request's city.\<close>

definition traffic_score :: "(string, int) pydict \<Rightarrow> string \<Rightarrow> int" where
  "traffic_score cm city = dict_get cm (lower (strip city)) DEFAULT_TRAFFIC_SCORE"


section \<open>Numbers\<close>

text \<open>
  A Python or numpy float is modelled by the rational number it denotes, and comparisons
  of floats are comparisons of these rationals. The binary64 operations that round their
  result (\<open>+\<close>, \<open>-\<close> and \<open>round(x, ndigits)\<close>) are parameters of the model: no
  property below depends on how they round.
\<close>

record float_ops =
  f_add :: "rat \<Rightarrow> rat \<Rightarrow> rat"
  f_sub :: "rat \<Rightarrow> rat \<Rightarrow> rat"
  f_round :: "rat \<Rightarrow> nat \<Rightarrow> rat"

text \<open>
  An instance for running the model on concrete inputs: exact arithmetic, and rounding
  to \<open>ndigits\<close> decimals with ties to the even neighbour.
\<close>

definition round_half_even :: "rat \<Rightarrow> nat \<Rightarrow> rat" where
  "round_half_even x ndigits =
     (let scaled = x * 10 ^ ndigits;
          below = \<lfloor>scaled\<rfloor>;
          frac = scaled - of_int below;
          nearest = (if frac < 1 / 2 then below
                     else if 1 / 2 < frac then below + 1
                     else if even below then below else below + 1)
      in of_int nearest / 10 ^ ndigits)"

definition exact_ops :: float_ops where
  "exact_ops = \<lparr>f_add = (+), f_sub = (-), f_round = round_half_even\<rparr>"

section \<open>The model artifact and the process state\<close>

datatype py_error = FileNotFoundError | KeyError string | IndexError | LibraryError

text \<open>
  A cell of a data frame, and a data frame as the list of its rows, each row the list of
  its named cells in column order.
\<close>

datatype cell = CNum rat | CInt int | CStr string

type_synonym data_frame = "(string \<times> cell) list list"

text \<open>
  The fitted regressor exposes \<open>feature_importances_\<close>; the pipeline exposes
  \<open>named_steps\<close> and \<open>predict\<close>, which returns the predictions for the rows of a
  frame or raises. The artifact of \<open>mileage_model.pkl\<close> holds the pipeline under \<open>"model"\<close>
  and the feature names under \<open>"features"\<close>.
\<close>

record regressor =
  feature_importances :: "rat list"

record pipeline =
  named_steps :: "(string, regressor) pydict"
  pipeline_predict :: "data_frame \<Rightarrow> py_error + rat list"

record artifact =
  art_model :: pipeline
  art_features :: "string list"

text \<open>
  The five numbers computed at lines 72 to 76 from \<open>test.csv\<close>, the model's predictions
  and the sampled traffic scores.
\<close>

record evaluation =
  mae :: rat
  rmse :: rat
  r2 :: rat
  bias :: rat
  within_1 :: rat

datatype mvalue = MNum rat | MStr string

text \<open>
  The module's globals. \<open>ml_models\<close> is a dictionary with at most the three keys
  \<open>"model"\<close>, \<open>"features"\<close> and \<open>"feature_importance_dict"\<close>: a field is \<open>None\<close> when
  its key is absent.
\<close>

record ml_models_dict =
  model :: "pipeline option"
  features :: "string list option"
  feature_importance_dict :: "(string, rat) pydict option"

record globals =
  g_city_map :: "(string, int) pydict"
  ml_models :: ml_models_dict
  metrics_data :: "(string, mvalue) pydict"

text \<open>Lines 18 to 29: the state after the module is imported.\<close>

definition module_init :: "city_row list \<Rightarrow> globals" where
  "module_init city_df =
     \<lparr>g_city_map = city_map city_df,
      ml_models = \<lparr>model = None, features = None, feature_importance_dict = None\<rparr>,
      metrics_data = []\<rparr>"

text \<open>Lines 43 to 45: \<open>dict(zip(feature_names, rf_model.feature_importances_))\<close>.\<close>

definition importance_dict :: "string list \<Rightarrow> rat list \<Rightarrow> (string, rat) pydict" where
  "importance_dict feature_names importances = dict_of (zip feature_names importances)"

text \<open>Lines 78 to 85 and 88 to 95: the items stored into \<open>metrics_data\<close>.\<close>

definition computed_metrics :: "float_ops \<Rightarrow> evaluation \<Rightarrow> (string \<times> mvalue) list" where
  "computed_metrics fl ev =
     [(''MAE'', MNum (f_round fl (mae ev) 4)),
      (''RMSE'', MNum (f_round fl (rmse ev) 4)),
      (''R2'', MNum (f_round fl (r2 ev) 4)),
      (''Bias'', MNum (f_round fl (bias ev) 4)),
      (''Within_1_km'', MNum (f_round fl (within_1 ev) 2)),
      (''Grade'', MStr (if 75 < within_1 ev then ''EXCELLENT'' else ''GOOD''))]"

definition fallback_metrics :: "(string \<times> mvalue) list" where
  "fallback_metrics =
     [(''MAE'', MNum 1.25),
      (''RMSE'', MNum 1.85),
      (''R2'', MNum 0.89),
      (''Bias'', MNum (- 0.12)),
      (''Within_1_km'', MNum 82.5),
      (''Grade'', MStr ''EXCELLENT'')]"

text \<open>
  \<open>lifespan\<close> up to its \<open>yield\<close>. The artifact is \<open>None\<close> when \<open>mileage_model.pkl\<close> does
  not exist. The third argument is \<open>None\<close> when \<open>test.csv\<close> does not exist, and
  otherwise what lines 50 to 76 produce: the five numbers, or the error they raise.
\<close>

definition lifespan_startup ::
  "float_ops \<Rightarrow> artifact option \<Rightarrow> (py_error + evaluation) option \<Rightarrow> globals \<Rightarrow> py_error + globals"
where
  "lifespan_startup fl loaded test g =
     (case loaded of
        None \<Rightarrow> Inl FileNotFoundError
      | Some art \<Rightarrow>
          (let feature_names = art_features art;
               ml1 = (ml_models g)\<lparr>model := Some (art_model art), features := Some feature_names\<rparr>
           in case dict_getitem (named_steps (art_model art)) ''regressor'' of
                None \<Rightarrow> Inl (KeyError ''regressor'')
              | Some rf_model \<Rightarrow>
                  (let ml2 = ml1\<lparr>feature_importance_dict :=
                               Some (importance_dict feature_names (feature_importances rf_model))\<rparr>
                   in case test of
                        Some (Inr ev) \<Rightarrow>
                          Inr (g\<lparr>ml_models := ml2,
                                 metrics_data :=
                                   dict_update (metrics_data g) (computed_metrics fl ev)\<rparr>)
                      | Some (Inl e) \<Rightarrow> Inl e
                      | None \<Rightarrow>
                          Inr (g\<lparr>ml_models := ml2,
                                 metrics_data := dict_update (metrics_data g) fallback_metrics\<rparr>))))"

text \<open>\<open>lifespan\<close> after its \<open>yield\<close>.\<close>

definition lifespan_shutdown :: "globals \<Rightarrow> globals" where
  "lifespan_shutdown g =
     g\<lparr>ml_models := \<lparr>model = None, features = None, feature_importance_dict = None\<rparr>,
       metrics_data := []\<rparr>"

section \<open>The request model\<close>

datatype FuelType = Petrol | Diesel | CNG | Electric

datatype TransmissionType = Manual | Automatic

fun FuelType_value :: "FuelType \<Rightarrow> string" where
  "FuelType_value Petrol = ''Petrol''"
| "FuelType_value Diesel = ''Diesel''"
| "FuelType_value CNG = ''CNG''"
| "FuelType_value Electric = ''Electric''"

fun TransmissionType_value :: "TransmissionType \<Rightarrow> string" where
  "TransmissionType_value Manual = ''Manual''"
| "TransmissionType_value Automatic = ''Automatic''"

record CarInput =
  Total_km_driven :: rat
  Brand :: string
  Model :: string
  Engine_cc :: rat
  Fuel_type :: FuelType
  City :: string
  Transmission :: TransmissionType
  Age_of_vehicle :: rat
  Number_of_owners :: int

text \<open>
  The body of a request is a JSON value. The members of an object are listed in the order
  of the text; of two members with one name the later one counts.
\<close>

datatype json =
  JNull | JBool bool | JInt int | JFloat rat | JStr string
  | JArr "json list" | JObj "(string \<times> json) list"

definition member :: "(string \<times> json) list \<Rightarrow> string \<Rightarrow> json option" where
  "member kvs name = map_of (rev kvs) name"

text \<open>
  Validation of one member against the declared type of its field. A \<open>float\<close> field takes
  a JSON number, an \<open>int\<close> field a JSON integer, a \<open>str\<close> field a JSON string, and an
  enumeration field a string that is the value of one of its members. No field of
  \<open>CarInput\<close> declares a bound on its value. The further conversions that the validation
  library applies to other JSON values are outside the model.
\<close>

fun as_float :: "json \<Rightarrow> rat option" where
  "as_float (JInt i) = Some (of_int i)"
| "as_float (JFloat x) = Some x"
| "as_float _ = None"

fun as_int :: "json \<Rightarrow> int option" where
  "as_int (JInt i) = Some i"
| "as_int _ = None"

fun as_str :: "json \<Rightarrow> string option" where
  "as_str (JStr s) = Some s"
| "as_str _ = None"

definition FuelType_of :: "string \<Rightarrow> FuelType option" where
  "FuelType_of s =
     (if s = ''Petrol'' then Some Petrol
      else if s = ''Diesel'' then Some Diesel
      else if s = ''CNG'' then Some CNG
      else if s = ''Electric'' then Some Electric
      else None)"

definition TransmissionType_of :: "string \<Rightarrow> TransmissionType option" where
  "TransmissionType_of s =
     (if s = ''Manual'' then Some Manual
      else if s = ''Automatic'' then Some Automatic
      else None)"

fun as_FuelType :: "json \<Rightarrow> FuelType option" where
  "as_FuelType (JStr s) = FuelType_of s"
| "as_FuelType _ = None"

fun as_TransmissionType :: "json \<Rightarrow> TransmissionType option" where
  "as_TransmissionType (JStr s) = TransmissionType_of s"
| "as_TransmissionType _ = None"

definition field :: "(json \<Rightarrow> 'a option) \<Rightarrow> (string \<times> json) list \<Rightarrow> string \<Rightarrow> 'a option" where
  "field conv kvs name = Option.bind (member kvs name) conv"

text \<open>The fields of \<open>CarInput\<close> in declaration order (lines 128 to 137).\<close>

definition parse_CarInput :: "(string \<times> json) list \<Rightarrow> CarInput option" where
  "parse_CarInput kvs =
     Option.bind (field as_float kvs ''Total_km_driven'') (\<lambda>km.
     Option.bind (field as_str kvs ''Brand'') (\<lambda>brand.
     Option.bind (field as_str kvs ''Model'') (\<lambda>mdl.
     Option.bind (field as_float kvs ''Engine_cc'') (\<lambda>cc.
     Option.bind (field as_FuelType kvs ''Fuel_type'') (\<lambda>fuel.
     Option.bind (field as_str kvs ''City'') (\<lambda>city.
     Option.bind (field as_TransmissionType kvs ''Transmission'') (\<lambda>transmission.
     Option.bind (field as_float kvs ''Age_of_vehicle'') (\<lambda>age.
     Option.bind (field as_int kvs ''Number_of_owners'') (\<lambda>owners.
       Some \<lparr>Total_km_driven = km, Brand = brand, Model = mdl, Engine_cc = cc,
             Fuel_type = fuel, City = city, Transmission = transmission,
             Age_of_vehicle = age, Number_of_owners = owners\<rparr>)))))))))"

text \<open>The names of the fields that fail, which the error response reports.\<close>

definition field_errors :: "(string \<times> json) list \<Rightarrow> string list" where
  "field_errors kvs =
     (if field as_float kvs ''Total_km_driven'' = None then [''Total_km_driven''] else []) @
     (if field as_str kvs ''Brand'' = None then [''Brand''] else []) @
     (if field as_str kvs ''Model'' = None then [''Model''] else []) @
     (if field as_float kvs ''Engine_cc'' = None then [''Engine_cc''] else []) @
     (if field as_FuelType kvs ''Fuel_type'' = None then [''Fuel_type''] else []) @
     (if field as_str kvs ''City'' = None then [''City''] else []) @
     (if field as_TransmissionType kvs ''Transmission'' = None then [''Transmission''] else []) @
     (if field as_float kvs ''Age_of_vehicle'' = None then [''Age_of_vehicle''] else []) @
     (if field as_int kvs ''Number_of_owners'' = None then [''Number_of_owners''] else [])"

definition validate_CarInput :: "json \<Rightarrow> string list + CarInput" where
  "validate_CarInput body =
     (case body of
        JObj kvs \<Rightarrow>
          (case parse_CarInput kvs of
             Some data \<Rightarrow> Inr data
           | None \<Rightarrow> Inl (field_errors kvs))
      | _ \<Rightarrow> Inl [''body''])"

section \<open>The routes\<close>

text \<open>\<open>GET /api/metrics\<close>.\<close>

definition get_metrics :: "globals \<Rightarrow> (string, mvalue) pydict" where
  "get_metrics g = metrics_data g"

record PredictionResult =
  predicted_mileage :: rat
  range' :: "rat list"
  feature_importance :: "(string, rat) pydict"

text \<open>Lines 153 to 168: the one-row frame built from the request.\<close>

definition input_df :: "(string, int) pydict \<Rightarrow> CarInput \<Rightarrow> data_frame" where
  "input_df cm data =
     [[(''Total_km_driven'', CNum (Total_km_driven data)),
       (''Brand'', CStr (Brand data)),
       (''Model'', CStr (Model data)),
       (''Engine_cc'', CNum (Engine_cc data)),
       (''Fuel_type'', CStr (FuelType_value (Fuel_type data))),
       (''City_traffic_score'', CInt (traffic_score cm (City data))),
       (''Transmission'', CStr (TransmissionType_value (Transmission data))),
       (''Age_of_vehicle'', CNum (Age_of_vehicle data)),
       (''Number_of_owners'', CInt (Number_of_owners data))]]"

text \<open>
  \<open>predict\<close> (lines 151 to 180). The second component lists the frames on which the
  pipeline's \<open>predict\<close> was called, in order.
\<close>

definition predict ::
  "float_ops \<Rightarrow> globals \<Rightarrow> CarInput \<Rightarrow> (py_error + PredictionResult) \<times> data_frame list"
where
  "predict fl g data =
     (let df = input_df (g_city_map g) data
      in case model (ml_models g) of
           None \<Rightarrow> (Inl (KeyError ''model''), [])
         | Some mdl \<Rightarrow>
             (case pipeline_predict mdl df of
                Inl e \<Rightarrow> (Inl e, [df])
              | Inr [] \<Rightarrow> (Inl IndexError, [df])
              | Inr (prediction # _) \<Rightarrow>
                  (case feature_importance_dict (ml_models g) of
                     None \<Rightarrow> (Inl (KeyError ''feature_importance_dict''), [df])
                   | Some fi \<Rightarrow>
                       (Inr \<lparr>predicted_mileage = f_round fl prediction 2,
                             range' = [f_round fl (f_sub fl prediction 1) 2,
                                       f_round fl (f_add fl prediction 1) 2],
                             feature_importance = fi\<rparr>,
                        [df]))))"

text \<open>
  \<open>POST /api/predict\<close> as the framework serves it: the body is validated against
  \<open>CarInput\<close>, a body that fails is answered with status 422 and \<open>predict\<close> is not called;
  an exception that \<open>predict\<close> raises is answered with status 500.
\<close>

datatype response = OK PredictionResult | UnprocessableEntity "string list" | InternalServerError

fun status_code :: "response \<Rightarrow> nat" where
  "status_code (OK r) = 200"
| "status_code (UnprocessableEntity errs) = 422"
| "status_code InternalServerError = 500"

definition client_error :: "response \<Rightarrow> bool" where
  "client_error r = (400 \<le> status_code r \<and> status_code r < 500)"

definition post_predict :: "float_ops \<Rightarrow> globals \<Rightarrow> json \<Rightarrow> response \<times> data_frame list" where
  "post_predict fl g body =
     (case validate_CarInput body of
        Inl errs \<Rightarrow> (UnprocessableEntity errs, [])
      | Inr data \<Rightarrow>
          (case predict fl g data of
             (Inl e, calls) \<Rightarrow> (InternalServerError, calls)
           | (Inr r, calls) \<Rightarrow> (OK r, calls)))"

text \<open>The process from import to the answer of one request.\<close>

definition serve_predict ::
  "float_ops \<Rightarrow> city_row list \<Rightarrow> artifact option \<Rightarrow> (py_error + evaluation) option \<Rightarrow> json
     \<Rightarrow> py_error + response \<times> data_frame list"
where
  "serve_predict fl city_df loaded test body =
     (case lifespan_startup fl loaded test (module_init city_df) of
        Inl e \<Rightarrow> Inl e
      | Inr g \<Rightarrow> Inr (post_predict fl g body))"

section \<open>Example inputs\<close>

definition example_cities :: "city_row list" where
  "example_cities =
     [\<lparr>CITY = '' Mumbai'', TRAFFIC_SCORE = 80\<rparr>,
      \<lparr>CITY = ''New Delhi'', TRAFFIC_SCORE = 90\<rparr>,
      \<lparr>CITY = ''MUMBAI '', TRAFFIC_SCORE = 85\<rparr>]"

text \<open>A pipeline that predicts 20 for every row.\<close>

definition constant_predict :: "data_frame \<Rightarrow> py_error + rat list" where
  "constant_predict df = Inr (replicate (length df) 20)"

definition example_features :: "string list" where
  "example_features =
     [''Total_km_driven'', ''Brand'', ''Model'', ''Engine_cc'', ''Fuel_type'',
      ''City_traffic_score'', ''Transmission'', ''Age_of_vehicle'', ''Number_of_owners'']"

definition example_artifact :: artifact where
  "example_artifact =
     \<lparr>art_model =
        \<lparr>named_steps =
           [(''regressor'',
             \<lparr>feature_importances = [1 / 4, 1 / 8, 1 / 8, 1 / 8, 1 / 16, 1 / 16, 1 / 8, 1 / 16, 1 / 16]\<rparr>)],
         pipeline_predict = constant_predict\<rparr>,
      art_features = example_features\<rparr>"

text \<open>An artifact whose regressor reports fewer importances than the artifact names
  features.\<close>

definition short_artifact :: artifact where
  "short_artifact =
     \<lparr>art_model =
        \<lparr>named_steps = [(''regressor'', \<lparr>feature_importances = [1]\<rparr>)],
         pipeline_predict = constant_predict\<rparr>,
      art_features = [''Total_km_driven'', ''Brand'']\<rparr>"

definition example_body :: "rat \<Rightarrow> string \<Rightarrow> rat \<Rightarrow> int \<Rightarrow> json" where
  "example_body km fuel age owners =
     JObj [(''Total_km_driven'', JFloat km), (''Brand'', JStr ''Toyota''),
           (''Model'', JStr ''Corolla''), (''Engine_cc'', JInt 1800),
           (''Fuel_type'', JStr fuel), (''City'', JStr ''Mumbai''),
           (''Transmission'', JStr ''Automatic''), (''Age_of_vehicle'', JFloat age),
           (''Number_of_owners'', JInt owners)]"

text \<open>The state after startup with \<open>example_cities\<close>, \<open>example_artifact\<close> and no
  \<open>test.csv\<close>, and the answer of \<open>predict\<close> in that state.\<close>

definition example_globals :: globals where
  "example_globals =
     \<lparr>g_city_map = [(''mumbai'', 85), (''new delhi'', 90)],
      ml_models =
        \<lparr>model = Some (art_model example_artifact),
         features = Some example_features,
         feature_importance_dict =
           Some [(''Total_km_driven'', 1 / 4), (''Brand'', 1 / 8), (''Model'', 1 / 8),
                 (''Engine_cc'', 1 / 8), (''Fuel_type'', 1 / 16), (''City_traffic_score'', 1 / 16),
                 (''Transmission'', 1 / 8), (''Age_of_vehicle'', 1 / 16),
                 (''Number_of_owners'', 1 / 16)]\<rparr>,
      metrics_data = fallback_metrics\<rparr>"

definition example_evaluation :: "rat \<Rightarrow> evaluation" where
  "example_evaluation pct = \<lparr>mae = 1.2, rmse = 1.9, r2 = 0.9, bias = - 0.1, within_1 = pct\<rparr>"

definition example_input :: "rat \<Rightarrow> CarInput" where
  "example_input km =
     \<lparr>Total_km_driven = km, Brand = ''Toyota'', Model = ''Corolla'', Engine_cc = 1800,
      Fuel_type = Petrol, City = ''Mumbai'', Transmission = Automatic, Age_of_vehicle = 3,
      Number_of_owners = 1\<rparr>"

definition example_result :: PredictionResult where
  "example_result =
     \<lparr>predicted_mileage = 20, range' = [19, 21],
      feature_importance =
        [(''Total_km_driven'', 1 / 4), (''Brand'', 1 / 8), (''Model'', 1 / 8),
         (''Engine_cc'', 1 / 8), (''Fuel_type'', 1 / 16), (''City_traffic_score'', 1 / 16),
         (''Transmission'', 1 / 8), (''Age_of_vehicle'', 1 / 16),
         (''Number_of_owners'', 1 / 16)]\<rparr>"

section \<open>Properties of strings and dictionaries\<close>






lemma map_of_dict_setitem: "map_of (dict_setitem d k v) = (map_of d)(k \<mapsto> v)"
  by (induction d k v rule: dict_setitem.induct) (auto simp: fun_eq_iff)

lemma keys_dict_setitem: "set (dict_keys (dict_setitem d k v)) = insert k (set (dict_keys d))"
  by (induction d k v rule: dict_setitem.induct) (auto simp: dict_keys_def)


lemma dict_get_map_of:
  "dict_get d k dflt = (case map_of d k of Some v \<Rightarrow> v | None \<Rightarrow> dflt)"
  by (induction d k dflt rule: dict_get.induct) auto

text \<open>Storing a sequence of items, each computed from a row.\<close>

lemma map_of_fold_setitem:
  "map_of (fold (\<lambda>r acc. dict_setitem acc (kf r) (vf r)) rows d) =
     map_of d ++ map_of (rev (map (\<lambda>r. (kf r, vf r)) rows))"
proof (induction rows arbitrary: d)
  case Nil
  show ?case by simp
next
  case (Cons r rows)
  show ?case
    by (simp add: Cons.IH map_of_dict_setitem) (auto simp: fun_eq_iff map_add_def split: option.splits)
qed

lemma keys_fold_setitem:
  "set (dict_keys (fold (\<lambda>r acc. dict_setitem acc (kf r) (vf r)) rows d)) =
     set (dict_keys d) \<union> kf ` set rows"
  by (induction rows arbitrary: d) (auto simp: keys_dict_setitem)




lemma map_of_city_map:
  "map_of (city_map city_df) =
     map_of (rev (map (\<lambda>r. (lower (strip (CITY r)), TRAFFIC_SCORE r)) city_df))"
  by (simp add: city_map_def map_of_fold_setitem)


lemma dict_getitem_map_of: "dict_getitem d k = map_of d k"
  by (induction d k rule: dict_getitem.induct) auto

lemma dict_update_fold:
  "dict_update d items = fold (\<lambda>r acc. dict_setitem acc (fst r) (snd r)) items d"
  unfolding dict_update_def by (induction items arbitrary: d) (simp_all add: split_def)

lemma map_of_dict_update:
  "map_of (dict_update d items) = map_of d ++ map_of (rev items)"
  by (simp add: dict_update_fold map_of_fold_setitem)

lemma keys_dict_update:
  "set (dict_keys (dict_update d items)) = set (dict_keys d) \<union> fst ` set items"
  by (simp add: dict_update_fold keys_fold_setitem)

lemma keys_importance_dict:
  "set (dict_keys (importance_dict names imps)) = set (take (length imps) names)"
proof -
  have "fst ` set (zip names imps) = set (map fst (zip names imps))"
    by simp
  also have "\<dots> = set (take (length imps) names)"
    by (simp only: map_fst_zip_take) (cases "length imps \<le> length names", simp_all add: min_def)
  finally have "set (dict_keys []) \<union> fst ` set (zip names imps) = set (take (length imps) names)"
    by (simp add: dict_keys_def)
  then show ?thesis
    by (simp only: importance_dict_def dict_of_def keys_dict_update)
qed

section \<open>The city table and its lookup\<close>



text \<open>
  Claim C10. When several rows of the source have the same normalized city name, the
  table stores the score of the last of them: a row that no later row shadows is an
  entry of the table, and the lookup of its city returns its score.
\<close>

theorem city_map_last_wins:
  assumes "city_df = before @ row # after"
    and "\<forall>r \<in> set after. lower (strip (CITY r)) \<noteq> lower (strip (CITY row))"
  shows "(lower (strip (CITY row)), TRAFFIC_SCORE row) \<in> set (city_map city_df) \<and>
         traffic_score (city_map city_df) (CITY row) = TRAFFIC_SCORE row"
proof -
  let ?f = "\<lambda>r. (lower (strip (CITY r)), TRAFFIC_SCORE r)"
  have "map_of (rev (map ?f after)) (lower (strip (CITY row))) = None"
    using assms(2) by (force simp: map_of_eq_None_iff)
  then have m: "map_of (city_map city_df) (lower (strip (CITY row))) = Some (TRAFFIC_SCORE row)"
    by (simp add: map_of_city_map assms(1) map_add_def)
  then show ?thesis
    by (auto simp: traffic_score_def dict_get_map_of dest: map_of_SomeD)
qed


theorem city_map_last_wins_witness:
  "traffic_score (city_map example_cities) ''MUMBAI '' = 85 \<and>
   traffic_score (city_map example_cities) ''New Delhi'' = 90"
proof -
  have n: "lower (strip ''MUMBAI '') \<noteq> lower (strip ''New Delhi'')"
    by code_simp
  show ?thesis
    using
      city_map_last_wins [of example_cities
        "[\<lparr>CITY = '' Mumbai'', TRAFFIC_SCORE = 80\<rparr>, \<lparr>CITY = ''New Delhi'', TRAFFIC_SCORE = 90\<rparr>]"
        "\<lparr>CITY = ''MUMBAI '', TRAFFIC_SCORE = 85\<rparr>" "[]"]
      city_map_last_wins [of example_cities
        "[\<lparr>CITY = '' Mumbai'', TRAFFIC_SCORE = 80\<rparr>]"
        "\<lparr>CITY = ''New Delhi'', TRAFFIC_SCORE = 90\<rparr>"
        "[\<lparr>CITY = ''MUMBAI '', TRAFFIC_SCORE = 85\<rparr>]"]
    by (simp add: example_cities_def n)
qed


section \<open>Startup\<close>

lemma startup_cases:
  assumes "lifespan_startup fl loaded test g0 = Inr g"
  obtains art rf where "loaded = Some art"
    and "dict_getitem (named_steps (art_model art)) ''regressor'' = Some rf"
    and "ml_models g =
           \<lparr>model = Some (art_model art), features = Some (art_features art),
            feature_importance_dict =
              Some (importance_dict (art_features art) (feature_importances rf))\<rparr>"
    and "g_city_map g = g_city_map g0"
    and "metrics_data g =
           dict_update (metrics_data g0)
             (case test of None \<Rightarrow> fallback_metrics | Some (Inr ev) \<Rightarrow> computed_metrics fl ev
              | Some (Inl e) \<Rightarrow> [])"
proof (cases loaded)
  case None
  with assms show ?thesis by (simp add: lifespan_startup_def)
next
  case (Some art)
  show ?thesis
  proof (cases "dict_getitem (named_steps (art_model art)) ''regressor''")
    case None
    with assms Some show ?thesis by (simp add: lifespan_startup_def Let_def)
  next
    case rf: (Some rf)
    from assms Some rf that [of art rf] show ?thesis
      by (cases "ml_models g0")
        (auto simp: lifespan_startup_def Let_def split: option.splits sum.splits)
  qed
qed

lemma city_map_example: "city_map example_cities = [(''mumbai'', 85), (''new delhi'', 90)]"
  by code_simp

lemma importance_dict_example:
  "importance_dict example_features [1 / 4, 1 / 8, 1 / 8, 1 / 8, 1 / 16, 1 / 16, 1 / 8, 1 / 16, 1 / 16] =
     [(''Total_km_driven'', 1 / 4), (''Brand'', 1 / 8), (''Model'', 1 / 8),
      (''Engine_cc'', 1 / 8), (''Fuel_type'', 1 / 16), (''City_traffic_score'', 1 / 16),
      (''Transmission'', 1 / 8), (''Age_of_vehicle'', 1 / 16), (''Number_of_owners'', 1 / 16)]"
  by code_simp

lemma dict_update_fallback: "dict_update [] fallback_metrics = fallback_metrics"
  by code_simp

lemma startup_example:
  "lifespan_startup exact_ops (Some example_artifact) None (module_init example_cities) =
     Inr example_globals"
  by (simp add: lifespan_startup_def module_init_def example_globals_def city_map_example
      dict_update_fallback)
    (simp add: example_artifact_def importance_dict_example dict_update_fallback)

lemma round_20: "round_half_even 20 2 = 20" "round_half_even 19 2 = 19" "round_half_even 21 2 = 21"
  by code_simp+

lemma predict_example:
  "fst (predict exact_ops example_globals (example_input km)) = Inr example_result"
  by (simp add: predict_def example_globals_def example_artifact_def constant_predict_def
      input_df_def exact_ops_def round_20 example_result_def)

lemma startup_example_evaluated:
  "lifespan_startup exact_ops (Some example_artifact) (Some (Inr (example_evaluation pct)))
       (module_init example_cities) =
     Inr (example_globals\<lparr>metrics_data :=
            dict_update [] (computed_metrics exact_ops (example_evaluation pct))\<rparr>)"
  by (simp add: lifespan_startup_def module_init_def example_globals_def city_map_example
      example_artifact_def importance_dict_example)

lemma grade_of_computed_metrics:
  "map_of (rev (computed_metrics fl ev)) ''Grade'' =
     Some (MStr (if 75 < within_1 ev then ''EXCELLENT'' else ''GOOD''))"
  by (simp add: computed_metrics_def)

lemma parse_CarInput_fuel_None:
  "field as_FuelType kvs ''Fuel_type'' = None \<Longrightarrow> parse_CarInput kvs = None"
  by (simp add: parse_CarInput_def split: Option.bind_splits)

lemma FuelType_of_None:
  "s \<notin> {''Petrol'', ''Diesel'', ''CNG'', ''Electric''} \<Longrightarrow> FuelType_of s = None"
  by (simp add: FuelType_of_def)



lemma rejected_no_call:
  "validate_CarInput body = Inl errs \<Longrightarrow> post_predict fl g body = (UnprocessableEntity errs, [])"
  by (simp add: post_predict_def)

section \<open>The metrics snapshot\<close>

text \<open>
  Claim C8. When \<open>test.csv\<close> is absent and startup succeeds, \<open>metrics_data\<close> is the fixed
  snapshot MAE 1.25, RMSE 1.85, R2 0.89, Bias -0.12, Within_1_km 82.5, Grade EXCELLENT,
  and \<open>GET /api/metrics\<close> returns \<open>metrics_data\<close>.
\<close>

theorem fallback_metrics_snapshot:
  assumes "lifespan_startup fl loaded None (module_init city_df) = Inr g"
  shows "metrics_data g =
           [(''MAE'', MNum 1.25), (''RMSE'', MNum 1.85), (''R2'', MNum 0.89),
            (''Bias'', MNum (- 0.12)), (''Within_1_km'', MNum 82.5),
            (''Grade'', MStr ''EXCELLENT'')] \<and>
         get_metrics g = metrics_data g"
proof -
  from assms have "metrics_data g = dict_update (metrics_data (module_init city_df)) fallback_metrics"
    by (rule startup_cases) simp
  then have "metrics_data g = fallback_metrics"
    by (simp add: module_init_def dict_update_fallback)
  then show ?thesis
    by (simp add: fallback_metrics_def get_metrics_def)
qed

theorem fallback_metrics_snapshot_witness:
  "lifespan_startup exact_ops (Some example_artifact) None (module_init example_cities) =
     Inr example_globals \<and>
   get_metrics example_globals =
     [(''MAE'', MNum 1.25), (''RMSE'', MNum 1.85), (''R2'', MNum 0.89),
      (''Bias'', MNum (- 0.12)), (''Within_1_km'', MNum 82.5),
      (''Grade'', MStr ''EXCELLENT'')]"
  using startup_example fallback_metrics_snapshot [OF startup_example] by simp


text \<open>
  Claim C7. When \<open>test.csv\<close> is present and startup succeeds, the grade of the snapshot is
  EXCELLENT exactly when the computed percentage \<open>within_1\<close> exceeds 75, and GOOD
  otherwise. The grade is decided on the percentage as computed, before it is rounded to
  two decimals for the \<open>Within_1_km\<close> entry.
\<close>

theorem grade_excellent_iff:
  assumes "lifespan_startup fl loaded (Some (Inr ev)) g0 = Inr g"
  shows "(dict_getitem (get_metrics g) ''Grade'' = Some (MStr ''EXCELLENT'') \<longleftrightarrow> 75 < within_1 ev) \<and>
         (dict_getitem (get_metrics g) ''Grade'' = Some (MStr ''GOOD'') \<longleftrightarrow> \<not> 75 < within_1 ev)"
proof -
  from assms have "metrics_data g = dict_update (metrics_data g0) (computed_metrics fl ev)"
    by (rule startup_cases) simp
  then have "dict_getitem (get_metrics g) ''Grade'' =
      Some (MStr (if 75 < within_1 ev then ''EXCELLENT'' else ''GOOD''))"
    by (simp add: get_metrics_def dict_getitem_map_of map_of_dict_update map_add_def
        grade_of_computed_metrics)
  then show ?thesis by simp
qed

theorem grade_excellent_iff_witness:
  "dict_getitem
     (get_metrics (example_globals\<lparr>metrics_data :=
        dict_update [] (computed_metrics exact_ops (example_evaluation 75.004))\<rparr>)) ''Grade'' =
     Some (MStr ''EXCELLENT'') \<and>
   dict_getitem
     (get_metrics (example_globals\<lparr>metrics_data :=
        dict_update [] (computed_metrics exact_ops (example_evaluation 75))\<rparr>)) ''Grade'' =
     Some (MStr ''GOOD'')"
  using grade_excellent_iff [OF startup_example_evaluated [of "75.004"]]
    grade_excellent_iff [OF startup_example_evaluated [of 75]]
  by (simp add: example_evaluation_def)

section \<open>Prediction\<close>




text \<open>
  Claim C9, amended. The keys of the \<open>feature_importance\<close> mapping of a result are the
  first \<open>min n m\<close> feature names of the artifact, where the artifact declares \<open>n\<close> names
  and the regressor reports \<open>m\<close> importances: \<open>zip\<close> stops at the shorter list. They are
  exactly the declared names when \<open>n \<le> m\<close>. The mapping is the one stored in
  \<open>ml_models\<close> at startup.
\<close>

theorem feature_importance_keys:
  assumes "lifespan_startup fl (Some art) test g0 = Inr g"
    and "dict_getitem (named_steps (art_model art)) ''regressor'' = Some rf"
    and "fst (predict fl g data) = Inr r"
  shows "set (dict_keys (feature_importance r)) =
           set (take (length (feature_importances rf)) (art_features art)) \<and>
         (length (art_features art) \<le> length (feature_importances rf) \<longrightarrow>
            set (dict_keys (feature_importance r)) = set (art_features art)) \<and>
         feature_importance_dict (ml_models g) = Some (feature_importance r)"
proof -
  from assms(1) have fi: "feature_importance_dict (ml_models g) =
      Some (importance_dict (art_features art) (feature_importances rf))"
    by (rule startup_cases) (use assms(2) in simp)
  from assms(3) have r: "feature_importance_dict (ml_models g) = Some (feature_importance r)"
    by (auto simp: predict_def Let_def split: option.splits sum.splits list.splits)
  from fi r have "feature_importance r = importance_dict (art_features art) (feature_importances rf)"
    by simp
  then show ?thesis
    using r by (simp add: keys_importance_dict)
qed

theorem feature_importance_keys_witness:
  "lifespan_startup exact_ops (Some example_artifact) None (module_init example_cities) =
     Inr example_globals \<and>
   fst (predict exact_ops example_globals (example_input 50000)) = Inr example_result \<and>
   set (dict_keys (feature_importance example_result)) = set (art_features example_artifact) \<and>
   feature_importance_dict (ml_models example_globals) = Some (feature_importance example_result)"
proof -
  have rf: "dict_getitem (named_steps (art_model example_artifact)) ''regressor'' =
      Some \<lparr>feature_importances = [1 / 4, 1 / 8, 1 / 8, 1 / 8, 1 / 16, 1 / 16, 1 / 8, 1 / 16, 1 / 16]\<rparr>"
    by (simp add: example_artifact_def)
  have n: "length (art_features example_artifact) \<le>
      length [1 / 4, 1 / 8, 1 / 8, 1 / 8, 1 / 16, 1 / 16, 1 / 8, 1 / 16, 1 / (16 :: rat)]"
    by (simp add: example_artifact_def example_features_def)
  show ?thesis
    using startup_example predict_example [of 50000] n
      feature_importance_keys [OF startup_example rf predict_example [of 50000]]
    by simp
qed

text \<open>
  Claim C9 as stated fails for an artifact that declares two feature names and whose
  regressor reports one importance: the mapping of the result has one key.
\<close>

theorem feature_importance_keys_counterexample:
  "serve_predict exact_ops example_cities (Some short_artifact) None
       (example_body 50000 ''Petrol'' 3 1) =
     Inr (OK \<lparr>predicted_mileage = 20, range' = [19, 21],
              feature_importance = [(''Total_km_driven'', 1)]\<rparr>,
          [[[(''Total_km_driven'', CNum 50000), (''Brand'', CStr ''Toyota''),
             (''Model'', CStr ''Corolla''), (''Engine_cc'', CNum 1800),
             (''Fuel_type'', CStr ''Petrol''), (''City_traffic_score'', CInt 85),
             (''Transmission'', CStr ''Automatic''), (''Age_of_vehicle'', CNum 3),
             (''Number_of_owners'', CInt 1)]]]) \<and>
   set (dict_keys [(''Total_km_driven'', 1 :: rat)]) \<noteq> set (art_features short_artifact)"
  by code_simp


section \<open>Validation of the request\<close>

text \<open>
  Claim C4. A body whose \<open>Fuel_type\<close> member is not one of the strings \<open>Petrol\<close>,
  \<open>Diesel\<close>, \<open>CNG\<close>, \<open>Electric\<close> (a missing member and a body that is not an object
  included) is answered with status 422, a client error, and the pipeline is not called.
\<close>

theorem invalid_fuel_type_rejected:
  assumes "\<forall>kvs s. body = JObj kvs \<and> member kvs ''Fuel_type'' = Some (JStr s) \<longrightarrow>
             s \<notin> {''Petrol'', ''Diesel'', ''CNG'', ''Electric''}"
  shows "status_code (fst (post_predict fl g body)) = 422 \<and>
         client_error (fst (post_predict fl g body)) \<and>
         snd (post_predict fl g body) = []"
proof -
  have "\<exists>errs. validate_CarInput body = Inl errs"
  proof (cases body)
    case (JObj kvs)
    have "field as_FuelType kvs ''Fuel_type'' = None"
    proof (cases "member kvs ''Fuel_type''")
      case None
      then show ?thesis by (simp add: field_def)
    next
      case (Some v)
      show ?thesis
      proof (cases v)
        case (JStr s)
        with assms JObj Some have "s \<notin> {''Petrol'', ''Diesel'', ''CNG'', ''Electric''}"
          by blast
        then show ?thesis
          using Some JStr by (simp add: field_def FuelType_of_None)
      qed (simp_all add: field_def Some)
    qed
    then show ?thesis
      using JObj by (simp add: validate_CarInput_def parse_CarInput_fuel_None)
  qed (simp_all add: validate_CarInput_def)
  then obtain errs where "post_predict fl g body = (UnprocessableEntity errs, [])"
    by (auto dest: rejected_no_call)
  then show ?thesis
    by (simp add: client_error_def)
qed

theorem invalid_fuel_type_rejected_witness:
  "status_code (fst (post_predict exact_ops example_globals (example_body 50000 ''Hybrid'' 3 1))) = 422 \<and>
   client_error (fst (post_predict exact_ops example_globals (example_body 50000 ''Hybrid'' 3 1))) \<and>
   snd (post_predict exact_ops example_globals (example_body 50000 ''Hybrid'' 3 1)) = []"
proof -
  have "\<forall>kvs s. example_body 50000 ''Hybrid'' 3 1 = JObj kvs \<and>
      member kvs ''Fuel_type'' = Some (JStr s) \<longrightarrow>
      s \<notin> {''Petrol'', ''Diesel'', ''CNG'', ''Electric''}"
    by (auto simp: example_body_def member_def)
  then show ?thesis
    by (rule invalid_fuel_type_rejected)
qed




end
